theory Spec2Isabelle
  imports Main
begin

section \<open>Flash-sale order admission of ScaleMart\<close>

text \<open>
  A shallow embedding of the order admission path of the backend:
  \<^item> \<^verbatim>\<open>check_rate_limit\<close>, \<^verbatim>\<open>flash_buy\<close> and \<^verbatim>\<open>process_order_task\<close> of
    \<^verbatim>\<open>backend/server.py\<close>;
  \<^item> \<^verbatim>\<open>FlashBuyRequest\<close> and \<^verbatim>\<open>process_order_task\<close> of \<^verbatim>\<open>backend/server_enhanced.py\<close>
    (its \<^verbatim>\<open>check_rate_limit\<close> differs from the one of \<^verbatim>\<open>server.py\<close> only in the text
    of the error message);
  \<^item> \<^verbatim>\<open>cancel_order\<close> of \<^verbatim>\<open>backend/additional_endpoints.py\<close>.

  Every handler is modelled as one sequential step on an explicit state: the Redis keys
  and the MongoDB \<^verbatim>\<open>orders\<close> collection. An exception is a value of type
  \<open>error\<close>, and a handler returns the state it leaves behind together with its result,
  because a handler that raises has already written to Redis or MongoDB in some cases.

  Time is one global clock counted in microseconds (the resolution of \<^verbatim>\<open>datetime\<close>);
  a handler reads the clock once, and Redis sees the same clock cut to milliseconds.
  Python integers are unbounded, so quantities are of type \<open>int\<close>; the range of a
  Redis counter is checked where a request's quantity reaches it, at the decrement.
  Prices are floating point numbers in the source; they are left out of the model,
  nothing below depends on them.
\<close>

subsection \<open>Data\<close>

text \<open>
  The errors raised by the three handlers. The first six are \<^verbatim>\<open>HTTPException\<close>s; the
  last two are exceptions of the libraries that no handler catches, answered with
  status 500:
  \<^item> \<open>RateLimited\<close>: status 429, raised by \<^verbatim>\<open>check_rate_limit\<close>;
  \<^item> \<open>NotFound\<close>: status 404, "Product not found" in \<^verbatim>\<open>flash_buy\<close> and "Order not found"
    in \<^verbatim>\<open>cancel_order\<close>;
  \<^item> \<open>OutOfStock\<close>: status 400, "Out of stock!";
  \<^item> \<open>Forbidden\<close>: status 403, "Not authorized to cancel this order";
  \<^item> \<open>InvalidState\<close>: status 400, "Cannot cancel order with status ...";
  \<^item> \<open>WindowExpired\<close>: status 400, "Order can only be cancelled within 5 minutes of
    placement";
  \<^item> \<open>ResponseError\<close>: \<^verbatim>\<open>redis.exceptions.ResponseError\<close>, the reply of Redis to a
    decrement that is out of range or would overflow;
  \<^item> \<open>EncodeError\<close>: \<^verbatim>\<open>kombu.exceptions.EncodeError\<close>, raised by \<^verbatim>\<open>delay\<close> when the
    message cannot be written as JSON.
\<close>

datatype error =
    RateLimited | NotFound | OutOfStock | Forbidden | InvalidState | WindowExpired
  | ResponseError | EncodeError

text \<open>The fields of \<^verbatim>\<open>User\<close> that the handlers read.\<close>

record user =
  user_ident :: string
  user_mail :: string

text \<open>The JSON document under the Redis key \<^verbatim>\<open>product:{id}\<close>; only its name is copied into an order.\<close>

record product =
  prod_name :: string

text \<open>\<^verbatim>\<open>FlashBuyRequest\<close>: the body of a purchase request.\<close>

record FlashBuyRequest =
  req_product_id :: string
  req_quantity :: int

text \<open>
  A document of the \<^verbatim>\<open>orders\<close> collection. \<^verbatim>\<open>cancelled_at\<close> and \<^verbatim>\<open>can_cancel\<close> are keys
  that \<^verbatim>\<open>flash_buy\<close> does not write: \<^verbatim>\<open>cancel_order\<close> adds the first, the worker of
  \<^verbatim>\<open>server_enhanced.py\<close> adds the second. \<open>mongo_id\<close> is the key \<^verbatim>\<open>_id\<close>, an
  \<^verbatim>\<open>ObjectId\<close> that \<^verbatim>\<open>insert_one\<close> adds to a dictionary without one. The status is a
  string, as in the source.
\<close>

record order =
  order_id :: string
  user_id :: string
  user_email :: string
  product_id :: string
  product_name :: string
  quantity :: int
  status :: string
  created_at :: int
  updated_at :: int
  cancelled_at :: "int option"
  can_cancel :: "bool option"
  mongo_id :: "nat option"

text \<open>\<^verbatim>\<open>OrderStatus\<close>: the response of \<^verbatim>\<open>flash_buy\<close>.\<close>

record OrderStatus =
  ret_order_id :: string
  ret_status :: string
  ret_message :: string

text \<open>The response of \<^verbatim>\<open>cancel_order\<close>: the order's id and \<^verbatim>\<open>refunded_stock\<close>.\<close>

record cancel_response =
  cancelled_order_id :: string
  refunded_stock :: int

text \<open>
  A Redis counter key with its time to live: the value and the instant it expires at,
  in milliseconds.
\<close>

record rate_window =
  rw_count :: int
  rw_expire_at :: "int option"

text \<open>
  The state. The Redis keys \<^verbatim>\<open>product:{id}\<close>, \<^verbatim>\<open>stock:{id}\<close> and
  \<^verbatim>\<open>rate_limit:{user}:{action}\<close> begin with different prefixes, so the three families
  never share a key and each is a map of its own; the first two are indexed by the
  product id, the third by the whole key. \<open>orders\<close> is the collection in insertion
  order, and \<open>queue\<close> holds the messages handed to \<^verbatim>\<open>process_order_task.delay\<close>.
\<close>

record state =
  products :: "string \<rightharpoonup> product"
  stock :: "string \<rightharpoonup> int"
  rate_limit :: "string \<rightharpoonup> rate_window"
  orders :: "order list"
  queue :: "order list"

subsection \<open>Redis primitives\<close>

text \<open>
  \<^verbatim>\<open>GET\<close> of a counter key. Redis drops a key once its millisecond clock is past the
  expiry: at the millisecond of the expiry itself the key is still read.
\<close>

definition redis_get :: "state \<Rightarrow> string \<Rightarrow> int \<Rightarrow> int option" where
  "redis_get s key now =
     (case rate_limit s key of
        None \<Rightarrow> None
      | Some w \<Rightarrow>
          (case rw_expire_at w of
             None \<Rightarrow> Some (rw_count w)
           | Some e \<Rightarrow> if e < now div 1000 then None else Some (rw_count w)))"


text \<open>\<^verbatim>\<open>INCR\<close>: adds one and keeps the time to live; an absent key starts at 0 with none.\<close>

definition redis_incr :: "state \<Rightarrow> string \<Rightarrow> int \<Rightarrow> state" where
  "redis_incr s key now =
     (case redis_get s key now of
        None \<Rightarrow> s\<lparr>rate_limit := (rate_limit s)(key \<mapsto> \<lparr>rw_count = 1, rw_expire_at = None\<rparr>)\<rparr>
      | Some c \<Rightarrow>
          s\<lparr>rate_limit := (rate_limit s)(key \<mapsto>
               \<lparr>rw_count = c + 1,
                rw_expire_at = Option.bind (rate_limit s key) rw_expire_at\<rparr>)\<rparr>)"

text \<open>
  \<^verbatim>\<open>EXPIRE key seconds\<close>: a key that exists expires \<open>seconds\<close> from now; with
  \<open>seconds \<le> 0\<close> Redis deletes it at once.
\<close>

definition redis_expire :: "state \<Rightarrow> string \<Rightarrow> int \<Rightarrow> int \<Rightarrow> state" where
  "redis_expire s key seconds now =
     (case redis_get s key now of
        None \<Rightarrow> s
      | Some c \<Rightarrow>
          if seconds \<le> 0 then s\<lparr>rate_limit := (rate_limit s)(key := None)\<rparr>
          else
            s\<lparr>rate_limit := (rate_limit s)(key \<mapsto>
                 \<lparr>rw_count = c, rw_expire_at = Some (now div 1000 + seconds * 1000)\<rparr>)\<rparr>)"

text \<open>The value of the counter \<^verbatim>\<open>stock:{id}\<close>; \<^verbatim>\<open>DECRBY\<close> and \<^verbatim>\<open>INCRBY\<close> read an absent key as 0.\<close>

definition stock_value :: "state \<Rightarrow> string \<Rightarrow> int" where
  "stock_value s pid = (case stock s pid of None \<Rightarrow> 0 | Some v \<Rightarrow> v)"

text \<open>The values of a Redis counter: the signed integers of 64 bits.\<close>

definition int64 :: "int \<Rightarrow> bool" where
  "int64 v \<longleftrightarrow> - 9223372036854775808 \<le> v \<and> v \<le> 9223372036854775807"

text \<open>
  \<^verbatim>\<open>redis_client.decr(key, amount)\<close>, the command \<^verbatim>\<open>DECRBY\<close>: subtracts and returns the
  new value. Redis refuses an amount that is not a signed integer of 64 bits, the
  least such integer (its negation overflows), and a subtraction whose result leaves
  the range; the counter is then unchanged and the client raises \<^verbatim>\<open>ResponseError\<close>.
\<close>

definition decrby_accepted :: "state \<Rightarrow> string \<Rightarrow> int \<Rightarrow> bool" where
  "decrby_accepted s pid amount \<longleftrightarrow>
     int64 amount \<and> amount \<noteq> - 9223372036854775808 \<and> int64 (stock_value s pid - amount)"

definition redis_decrby :: "state \<Rightarrow> string \<Rightarrow> int \<Rightarrow> state \<times> (error + int)" where
  "redis_decrby s pid amount =
     (if decrby_accepted s pid amount
      then let v = stock_value s pid - amount in (s\<lparr>stock := (stock s)(pid \<mapsto> v)\<rparr>, Inr v)
      else (s, Inl ResponseError))"

text \<open>
  \<^verbatim>\<open>redis_client.incr(key, amount)\<close> and \<^verbatim>\<open>incrby\<close>: adds and returns the new value.
  The amount is the quantity of a decrement that Redis has just accepted, or of a
  stored order; a sum that leaves the range of the counter is not modelled.
\<close>

definition redis_incrby :: "state \<Rightarrow> string \<Rightarrow> int \<Rightarrow> state \<times> int" where
  "redis_incrby s pid amount =
     (let v = stock_value s pid + amount in (s\<lparr>stock := (stock s)(pid \<mapsto> v)\<rparr>, v))"

subsection \<open>MongoDB primitives\<close>

text \<open>\<^verbatim>\<open>find_one({"id": oid})\<close>: the first document with that id.\<close>

fun find_one :: "order list \<Rightarrow> string \<Rightarrow> order option" where
  "find_one [] oid = None"
| "find_one (x # xs) oid = (if order_id x = oid then Some x else find_one xs oid)"

text \<open>\<^verbatim>\<open>update_one({"id": oid}, {"$set": ...})\<close>: changes the first document with that id, if any.\<close>

fun update_one :: "order list \<Rightarrow> string \<Rightarrow> (order \<Rightarrow> order) \<Rightarrow> order list" where
  "update_one [] oid f = []"
| "update_one (x # xs) oid f = (if order_id x = oid then f x # xs else x # update_one xs oid f)"

text \<open>
  \<^verbatim>\<open>insert_one(document)\<close>: appends the document and, when the dictionary has no
  \<^verbatim>\<open>_id\<close>, adds one to the caller's dictionary too. The driver draws a fresh
  \<^verbatim>\<open>ObjectId\<close>; here it is the position of the document. The result is the collection
  and the caller's dictionary after the call.
\<close>

definition insert_one :: "order list \<Rightarrow> order \<Rightarrow> order list \<times> order" where
  "insert_one xs document =
     (let document' = (case mongo_id document of
                         None \<Rightarrow> document\<lparr>mongo_id := Some (length xs)\<rparr>
                       | Some _ \<Rightarrow> document)
      in (xs @ [document'], document'))"

subsection \<open>The task queue\<close>

text \<open>
  \<^verbatim>\<open>process_order_task.delay(order_data)\<close> with \<^verbatim>\<open>task_serializer='json'\<close>: the message is
  written as JSON before anything is sent. An \<^verbatim>\<open>ObjectId\<close> has no JSON form, so a
  dictionary that holds \<^verbatim>\<open>_id\<close> raises \<^verbatim>\<open>EncodeError\<close> and nothing is queued; time
  stamps are ISO strings by then.
\<close>

definition process_order_task_delay :: "state \<Rightarrow> order \<Rightarrow> state \<times> (error + unit)" where
  "process_order_task_delay s order_data =
     (case mongo_id order_data of
        None \<Rightarrow> (s\<lparr>queue := queue s @ [order_data]\<rparr>, Inr ())
      | Some _ \<Rightarrow> (s, Inl EncodeError))"

subsection \<open>The rate limiter\<close>

text \<open>
  \<^verbatim>\<open>check_rate_limit(user_id, action, limit, window)\<close>: reads the counter, raises 429 when
  it exists and has reached the limit, and otherwise runs \<^verbatim>\<open>INCR\<close> and \<^verbatim>\<open>EXPIRE\<close> in one
  pipeline. The value read is a non-empty string whenever the key exists, so the test
  \<^verbatim>\<open>count and int(count) >= limit\<close> is false exactly when the key is absent or below
  the limit.
\<close>

definition rate_key :: "string \<Rightarrow> string \<Rightarrow> string" where
  "rate_key uid action = ''rate_limit:'' @ uid @ '':'' @ action"

definition check_rate_limit ::
    "state \<Rightarrow> string \<Rightarrow> string \<Rightarrow> int \<Rightarrow> int \<Rightarrow> int \<Rightarrow> state \<times> (error + unit)" where
  "check_rate_limit s uid action limit window now =
     (let key = rate_key uid action in
      case redis_get s key now of
        None \<Rightarrow> (redis_expire (redis_incr s key now) key window now, Inr ())
      | Some count \<Rightarrow>
          if count \<ge> limit then (s, Inl RateLimited)
          else (redis_expire (redis_incr s key now) key window now, Inr ()))"

subsection \<open>Purchase, cancellation, confirmation\<close>

text \<open>
  Lines 348 to 354 of \<^verbatim>\<open>flash_buy\<close>, the reservation: decrement, look at the new value,
  and on a negative one increment back and raise "Out of stock!". The result of a
  reservation that passes is the new value of the counter.
\<close>

definition reserve_stock :: "state \<Rightarrow> string \<Rightarrow> int \<Rightarrow> state \<times> (error + int)" where
  "reserve_stock s pid q =
     (case redis_decrby s pid q of
        (s1, Inl e) \<Rightarrow> (s1, Inl e)
      | (s1, Inr new_stock) \<Rightarrow>
          if new_stock < 0 then (fst (redis_incrby s1 pid q), Inl OutOfStock)
          else (s1, Inr new_stock))"

text \<open>
  \<^verbatim>\<open>flash_buy\<close> of \<^verbatim>\<open>server.py\<close>. \<open>new_id\<close> is the \<^verbatim>\<open>uuid4\<close> drawn for the order.
  \<^verbatim>\<open>FlashBuyRequest\<close> of \<^verbatim>\<open>server.py\<close> declares \<^verbatim>\<open>quantity: int = 1\<close> with no bound, so
  every integer reaches the handler. The dictionary given to \<^verbatim>\<open>insert_one\<close> is the one
  then given to \<^verbatim>\<open>delay\<close>.
\<close>

definition flash_buy ::
    "state \<Rightarrow> FlashBuyRequest \<Rightarrow> user \<Rightarrow> string \<Rightarrow> int \<Rightarrow> state \<times> (error + OrderStatus)" where
  "flash_buy s request current_user new_id now =
     (case check_rate_limit s (user_ident current_user) ''flash_buy'' 10 60 now of
        (s1, Inl e) \<Rightarrow> (s1, Inl e)
      | (s1, Inr _) \<Rightarrow>
          (case products s1 (req_product_id request) of
             None \<Rightarrow> (s1, Inl NotFound)
           | Some product_doc \<Rightarrow>
               (case reserve_stock s1 (req_product_id request) (req_quantity request) of
                  (s2, Inl e) \<Rightarrow> (s2, Inl e)
                | (s2, Inr new_stock) \<Rightarrow>
                    (case insert_one (orders s2)
                            \<lparr>order_id = new_id,
                             user_id = user_ident current_user,
                             user_email = user_mail current_user,
                             product_id = req_product_id request,
                             product_name = prod_name product_doc,
                             quantity = req_quantity request,
                             status = ''pending'',
                             created_at = now,
                             updated_at = now,
                             cancelled_at = None,
                             can_cancel = None,
                             mongo_id = None\<rparr> of
                       (stored, order_dict) \<Rightarrow>
                         (case process_order_task_delay (s2\<lparr>orders := stored\<rparr>) order_dict of
                            (s3, Inl e) \<Rightarrow> (s3, Inl e)
                          | (s3, Inr _) \<Rightarrow>
                              (s3, Inr \<lparr>ret_order_id = new_id,
                                       ret_status = ''pending'',
                                       ret_message =
                                         ''Order queued! Processing in background.''\<rparr>))))))"

text \<open>
  The validation \<^verbatim>\<open>FlashBuyRequest\<close> of \<^verbatim>\<open>server_enhanced.py\<close> declares:
  \<^verbatim>\<open>quantity: int = Field(default=1, ge=1, le=10)\<close>.
\<close>

definition FlashBuyRequest_enhanced_valid :: "FlashBuyRequest \<Rightarrow> bool" where
  "FlashBuyRequest_enhanced_valid request \<longleftrightarrow> 1 \<le> req_quantity request \<and> req_quantity request \<le> 10"

text \<open>
  \<^verbatim>\<open>cancel_order\<close>. Five minutes are 300000000 microseconds; the test is
  \<^verbatim>\<open>time_diff > timedelta(minutes=5)\<close>.
\<close>

definition cancel_order ::
    "state \<Rightarrow> string \<Rightarrow> user \<Rightarrow> int \<Rightarrow> state \<times> (error + cancel_response)" where
  "cancel_order s oid current_user now =
     (case find_one (orders s) oid of
        None \<Rightarrow> (s, Inl NotFound)
      | Some ord \<Rightarrow>
          if user_id ord \<noteq> user_ident current_user then (s, Inl Forbidden)
          else if status ord \<noteq> ''pending'' then (s, Inl InvalidState)
          else if now - created_at ord > 300000000 then (s, Inl WindowExpired)
          else
            let s1 = fst (redis_incrby s (product_id ord) (quantity ord));
                s2 = s1\<lparr>orders := update_one (orders s1) oid
                        (\<lambda>x. x\<lparr>status := ''cancelled'', updated_at := now,
                                cancelled_at := Some now\<rparr>)\<rparr>
            in (s2, Inr \<lparr>cancelled_order_id = oid, refunded_stock = quantity ord\<rparr>))"

text \<open>
  \<^verbatim>\<open>process_order_task\<close> of \<^verbatim>\<open>server.py\<close>: the worker's step for one message. It returns
  the order's id and the status it wrote.
\<close>

definition process_order_task :: "state \<Rightarrow> order \<Rightarrow> int \<Rightarrow> state \<times> (string \<times> string)" where
  "process_order_task s order_data now =
     (s\<lparr>orders := update_one (orders s) (order_id order_data)
           (\<lambda>x. x\<lparr>status := ''confirmed'', updated_at := now\<rparr>)\<rparr>,
      (order_id order_data, ''confirmed''))"

text \<open>\<^verbatim>\<open>process_order_task\<close> of \<^verbatim>\<open>server_enhanced.py\<close>.\<close>

definition process_order_task_enhanced :: "state \<Rightarrow> order \<Rightarrow> state \<times> (string \<times> string)" where
  "process_order_task_enhanced s order_data =
     (s\<lparr>orders := update_one (orders s) (order_id order_data)
           (\<lambda>x. x\<lparr>status := ''confirmed'', can_cancel := Some False\<rparr>)\<rparr>,
      (order_id order_data, ''confirmed''))"

subsection \<open>Sequences of calls\<close>

text \<open>
  The calls of \<^verbatim>\<open>check_rate_limit\<close> for one user and action at the instants \<open>ts\<close>, one
  after the other: the state they leave and the outcome of each.
\<close>

fun rate_limit_run ::
    "state \<Rightarrow> string \<Rightarrow> string \<Rightarrow> int \<Rightarrow> int \<Rightarrow> int list \<Rightarrow> state \<times> (error + unit) list" where
  "rate_limit_run s uid action limit window [] = (s, [])"
| "rate_limit_run s uid action limit window (t # ts) =
     (case check_rate_limit s uid action limit window t of
        (s', r) \<Rightarrow>
          (case rate_limit_run s' uid action limit window ts of
             (s'', rs) \<Rightarrow> (s'', r # rs)))"

text \<open>
  The operations of the system: a purchase request, a cancellation request, and the
  worker handling one message. A sequence of operations runs from left to right,
  whatever each of them answers.
\<close>

datatype operation =
    Purchase FlashBuyRequest user string int
  | Cancel string user int
  | Confirm order int

fun step :: "state \<Rightarrow> operation \<Rightarrow> state" where
  "step s (Purchase request current_user new_id now) =
     fst (flash_buy s request current_user new_id now)"
| "step s (Cancel oid current_user now) = fst (cancel_order s oid current_user now)"
| "step s (Confirm order_data now) = fst (process_order_task s order_data now)"

fun run_ops :: "state \<Rightarrow> operation list \<Rightarrow> state" where
  "run_ops s [] = s"
| "run_ops s (x # xs) = run_ops (step s x) xs"

text \<open>The units of product \<open>pid\<close> held by orders whose status is pending or confirmed.\<close>

fun sold_quantity :: "order list \<Rightarrow> string \<Rightarrow> int" where
  "sold_quantity [] pid = 0"
| "sold_quantity (x # xs) pid =
     (if product_id x = pid \<and> (status x = ''pending'' \<or> status x = ''confirmed'')
      then quantity x else 0) + sold_quantity xs pid"

text \<open>
  The operations of a run that holds purchases of non-negative quantities and
  cancellations only.
\<close>

fun non_negative_request :: "operation \<Rightarrow> bool" where
  "non_negative_request (Purchase request current_user new_id now) \<longleftrightarrow> 0 \<le> req_quantity request"
| "non_negative_request (Cancel oid current_user now) \<longleftrightarrow> True"
| "non_negative_request (Confirm order_data now) \<longleftrightarrow> False"

text \<open>
  For initial stock \<open>S\<close> of product \<open>pid\<close>: the counter and the units held by pending
  or confirmed orders add up to \<open>S\<close>, the counter is not negative, and no order has a
  negative quantity.
\<close>

definition stock_invariant :: "int \<Rightarrow> string \<Rightarrow> state \<Rightarrow> bool" where
  "stock_invariant S pid s \<longleftrightarrow>
     stock_value s pid + sold_quantity (orders s) pid = S \<and>
     0 \<le> stock_value s pid \<and>
     (\<forall>x \<in> set (orders s). 0 \<le> quantity x)"

subsection \<open>Concrete states\<close>

text \<open>A shop with the first product of \<^verbatim>\<open>initialize_products\<close> and \<open>S\<close> units of it.\<close>

definition shop :: "int \<Rightarrow> state" where
  "shop S = \<lparr>products = [''prod_1'' \<mapsto> \<lparr>prod_name = ''Premium Wireless Headphones''\<rparr>],
             stock = [''prod_1'' \<mapsto> S],
             rate_limit = Map.empty,
             orders = [],
             queue = []\<rparr>"

definition alice :: user where
  "alice = \<lparr>user_ident = ''u1'', user_mail = ''alice@example.com''\<rparr>"

definition bob :: user where
  "bob = \<lparr>user_ident = ''u2'', user_mail = ''bob@example.com''\<rparr>"

definition buy :: "string \<Rightarrow> int \<Rightarrow> FlashBuyRequest" where
  "buy pid q = \<lparr>req_product_id = pid, req_quantity = q\<rparr>"

text \<open>The order that \<open>flash_buy\<close> stores for \<open>alice\<close> buying three units at instant 0.\<close>

definition pending_order :: order where
  "pending_order = \<lparr>order_id = ''o1'', user_id = ''u1'', user_email = ''alice@example.com'',
       product_id = ''prod_1'', product_name = ''Premium Wireless Headphones'', quantity = 3,
       status = ''pending'', created_at = 0, updated_at = 0, cancelled_at = None,
       can_cancel = None, mongo_id = Some 0\<rparr>"

definition shop_with :: "int \<Rightarrow> order list \<Rightarrow> state" where
  "shop_with S os = (shop S)\<lparr>orders := os\<rparr>"

section \<open>Basic facts\<close>

subsection \<open>The rate limiter\<close>

lemma check_rate_limit_frame:
  "stock (fst (check_rate_limit s uid action limit window now)) = stock s \<and>
   products (fst (check_rate_limit s uid action limit window now)) = products s \<and>
   orders (fst (check_rate_limit s uid action limit window now)) = orders s \<and>
   queue (fst (check_rate_limit s uid action limit window now)) = queue s"
  by (auto simp: check_rate_limit_def redis_expire_def redis_incr_def Let_def
           split: option.splits if_splits)

lemma check_rate_limit_error:
  "snd (check_rate_limit s uid action limit window now) = Inl e \<Longrightarrow>
     e = RateLimited \<and> fst (check_rate_limit s uid action limit window now) = s"
  by (auto simp: check_rate_limit_def Let_def split: option.splits if_splits)





lemma check_rate_limit_other_keys:
  "k \<noteq> rate_key uid action \<Longrightarrow>
     rate_limit (fst (check_rate_limit s uid action limit window now)) k = rate_limit s k"
  by (auto simp: check_rate_limit_def redis_incr_def redis_expire_def redis_get_def Let_def
           split: option.splits)





subsection \<open>The reservation and the purchase\<close>

text \<open>
  What \<^verbatim>\<open>flash_buy\<close> computes, case by case. Its last step always fails: the dictionary
  it hands to \<^verbatim>\<open>delay\<close> has just been given an \<^verbatim>\<open>_id\<close> by \<^verbatim>\<open>insert_one\<close>.
\<close>

lemma reserve_stock_unfold:
  "reserve_stock s pid q =
     (if \<not> decrby_accepted s pid q then (s, Inl ResponseError)
      else if stock_value s pid < q
      then (s\<lparr>stock := (stock s)(pid \<mapsto> stock_value s pid)\<rparr>, Inl OutOfStock)
      else (s\<lparr>stock := (stock s)(pid \<mapsto> stock_value s pid - q)\<rparr>, Inr (stock_value s pid - q)))"
  by (simp add: reserve_stock_def redis_decrby_def redis_incrby_def stock_value_def Let_def)

lemma decrby_accepted_frame:
  "stock s' = stock s \<Longrightarrow> decrby_accepted s' pid q = decrby_accepted s pid q"
  by (simp add: decrby_accepted_def stock_value_def)

lemma flash_buy_unfold:
  "flash_buy s request u new_id now =
     (let s1 = fst (check_rate_limit s (user_ident u) ''flash_buy'' 10 60 now);
          pid = req_product_id request; q = req_quantity request in
      case snd (check_rate_limit s (user_ident u) ''flash_buy'' 10 60 now) of
        Inl e \<Rightarrow> (s, Inl RateLimited)
      | Inr _ \<Rightarrow>
          (case products s pid of
             None \<Rightarrow> (s1, Inl NotFound)
           | Some product_doc \<Rightarrow>
               if \<not> decrby_accepted s pid q then (s1, Inl ResponseError)
               else if stock_value s pid < q
               then (s1\<lparr>stock := (stock s)(pid \<mapsto> stock_value s pid)\<rparr>, Inl OutOfStock)
               else (s1\<lparr>stock := (stock s)(pid \<mapsto> stock_value s pid - q),
                        orders := orders s @ [\<lparr>order_id = new_id,
                                 user_id = user_ident u,
                                 user_email = user_mail u,
                                 product_id = pid,
                                 product_name = prod_name product_doc,
                                 quantity = q,
                                 status = ''pending'',
                                 created_at = now,
                                 updated_at = now,
                                 cancelled_at = None,
                                 can_cancel = None,
                                 mongo_id = Some (length (orders s))\<rparr>]\<rparr>,
                     Inl EncodeError)))"
proof -
  obtain s1 r where c: "check_rate_limit s (user_ident u) ''flash_buy'' 10 60 now = (s1, r)"
    by (cases "check_rate_limit s (user_ident u) ''flash_buy'' 10 60 now")
  have fr: "stock s1 = stock s" "products s1 = products s" "orders s1 = orders s" "queue s1 = queue s"
    using check_rate_limit_frame [of s "user_ident u" "''flash_buy''" 10 60 now] c by simp_all
  have er: "\<And>e. r = Inl e \<Longrightarrow> e = RateLimited \<and> s1 = s"
    using check_rate_limit_error [of s "user_ident u" "''flash_buy''" 10 60 now] c by simp
  have da: "\<And>pid q. decrby_accepted s1 pid q = decrby_accepted s pid q"
    using fr(1) by (rule decrby_accepted_frame)
  have sv: "\<And>pid. stock_value s1 pid = stock_value s pid"
    using fr(1) by (simp add: stock_value_def)
  show ?thesis
    using fr er
    by (auto simp: flash_buy_def c reserve_stock_unfold da sv insert_one_def
                   process_order_task_delay_def Let_def
             split: sum.splits option.splits)
qed

lemma flash_buy_never_answers:
  "snd (flash_buy s request u new_id now) \<noteq> Inr answer"
  by (auto simp: flash_buy_unfold Let_def split: sum.splits option.splits)

lemma flash_buy_rejections:
  "(snd (flash_buy s request u new_id now) = Inl e \<and> e \<noteq> EncodeError \<longrightarrow>
      e \<in> {RateLimited, NotFound, OutOfStock, ResponseError} \<and>
      orders (fst (flash_buy s request u new_id now)) = orders s \<and>
      queue (fst (flash_buy s request u new_id now)) = queue s) \<and>
   (snd (flash_buy s request u new_id now) = Inl RateLimited \<or>
    snd (flash_buy s request u new_id now) = Inl NotFound \<or>
    snd (flash_buy s request u new_id now) = Inl ResponseError \<longrightarrow>
      stock (fst (flash_buy s request u new_id now)) = stock s) \<and>
   (orders (fst (flash_buy s request u new_id now)) \<noteq> orders s \<longrightarrow>
      snd (check_rate_limit s (user_ident u) ''flash_buy'' 10 60 now) = Inr () \<and>
      products s (req_product_id request) \<noteq> None \<and>
      req_quantity request \<le> stock_value s (req_product_id request) \<and>
      stock_value (fst (flash_buy s request u new_id now)) (req_product_id request) =
        stock_value s (req_product_id request) - req_quantity request)"
  using check_rate_limit_frame [of s "user_ident u" "''flash_buy''" 10 60 now]
  by (auto simp: flash_buy_unfold stock_value_def Let_def split: sum.splits option.splits if_splits)

text \<open>
  The reservation, for decrements that Redis accepts: if the counter holds at least
  the quantity, it succeeds with the new value and the counter ends at its old value
  minus the quantity; otherwise it fails with "Out of stock!" and the counter is back
  at its old value. A decrement that Redis refuses fails with that error and changes
  nothing. In \<^verbatim>\<open>flash_buy\<close>, once the rate limiter has admitted the request and the
  product has been found, the stock counters end as the reservation leaves them and
  a failed reservation is the handler's error.
\<close>

lemma reserve_stock_in_range:
  "(decrby_accepted s pid q \<longrightarrow>
      (q \<le> stock_value s pid \<longrightarrow>
         snd (reserve_stock s pid q) = Inr (stock_value s pid - q) \<and>
         stock_value (fst (reserve_stock s pid q)) pid = stock_value s pid - q) \<and>
      (stock_value s pid < q \<longrightarrow>
         snd (reserve_stock s pid q) = Inl OutOfStock \<and>
         stock_value (fst (reserve_stock s pid q)) pid = stock_value s pid)) \<and>
   (\<not> decrby_accepted s pid q \<longrightarrow> reserve_stock s pid q = (s, Inl ResponseError)) \<and>
   (snd (check_rate_limit s (user_ident u) ''flash_buy'' 10 60 now) = Inr () \<and>
    products s pid \<noteq> None \<longrightarrow>
      stock (fst (flash_buy s \<lparr>req_product_id = pid, req_quantity = q\<rparr> u new_id now)) =
        stock (fst (reserve_stock s pid q)) \<and>
      (\<forall>e. snd (reserve_stock s pid q) = Inl e \<longrightarrow>
         snd (flash_buy s \<lparr>req_product_id = pid, req_quantity = q\<rparr> u new_id now) = Inl e))"
  by (auto simp: reserve_stock_unfold flash_buy_unfold check_rate_limit_frame stock_value_def
                 Let_def
           split: if_splits)

subsection \<open>The orders collection\<close>

lemma update_one_twice:
  "(\<And>x. order_id (f x) = order_id x) \<Longrightarrow>
     update_one (update_one xs oid f) oid g = update_one xs oid (\<lambda>x. g (f x))"
  by (induction xs) auto

lemma map_update_one:
  "map h (update_one xs oid f) = map h (update_one xs oid g)"
  if "\<And>x. h (f x) = h (g x)"
  using that by (induction xs) auto

lemma find_one_update_one:
  "(\<And>x. order_id (f x) = order_id x) \<Longrightarrow>
     find_one (update_one xs oid f) oid = map_option f (find_one xs oid)"
  by (induction xs) auto

subsection \<open>Runs of purchases and cancellations\<close>

text \<open>
  Purchases of non-negative quantities and cancellations, run one after the other from
  a state without orders, keep every stock counter between 0 and its initial value, and
  the units held by pending or confirmed orders within the initial stock.
\<close>

lemma sold_quantity_append:
  "sold_quantity (xs @ ys) pid = sold_quantity xs pid + sold_quantity ys pid"
  by (induction xs) auto

lemma sold_quantity_nonneg:
  "\<forall>x \<in> set xs. 0 \<le> quantity x \<Longrightarrow> 0 \<le> sold_quantity xs pid"
  by (induction xs) auto

lemma sold_quantity_cancel:
  "find_one xs oid = Some x \<Longrightarrow> status x = ''pending'' \<Longrightarrow>
     sold_quantity (update_one xs oid
        (\<lambda>y. y\<lparr>status := ''cancelled'', updated_at := now, cancelled_at := Some now\<rparr>)) pid =
     sold_quantity xs pid - (if product_id x = pid then quantity x else 0)"
proof (induction xs)
  case Nil
  then show ?case by simp
next
  case (Cons a xs)
  show ?case
  proof (cases "order_id a = oid")
    case True
    with Cons.prems have "a = x" by simp
    with True Cons.prems(2) show ?thesis by simp
  next
    case False
    with Cons show ?thesis by simp
  qed
qed

lemma quantity_update_one:
  "(\<And>x. quantity (f x) = quantity x) \<Longrightarrow>
     \<forall>x \<in> set xs. 0 \<le> quantity x \<Longrightarrow> \<forall>x \<in> set (update_one xs oid f). 0 \<le> quantity x"
  by (induction xs) auto

lemma find_one_in_set: "find_one xs oid = Some x \<Longrightarrow> x \<in> set xs"
  by (induction xs) (auto split: if_splits)

lemma stock_invariant_flash_buy:
  assumes "stock_invariant S pid s" and "0 \<le> req_quantity request"
  shows "stock_invariant S pid (fst (flash_buy s request u new_id now))"
  using assms
  by (auto simp: stock_invariant_def flash_buy_unfold stock_value_def Let_def sold_quantity_append
                 check_rate_limit_frame
           split: sum.splits option.splits)

lemma stock_invariant_cancel_order:
  assumes "stock_invariant S pid s"
  shows "stock_invariant S pid (fst (cancel_order s oid u now))"
proof (cases "find_one (orders s) oid")
  case None
  then show ?thesis using assms by (simp add: cancel_order_def)
next
  case (Some x)
  have q: "0 \<le> quantity x"
    using assms find_one_in_set [OF Some] by (simp add: stock_invariant_def)
  show ?thesis
  proof (cases "user_id x = user_ident u \<and> status x = ''pending'' \<and> now - created_at x \<le> 300000000")
    case True
    then have p: "status x = ''pending''" by simp
    show ?thesis
      using assms True q sold_quantity_cancel [OF Some p, of now pid]
        quantity_update_one [of "\<lambda>y. y\<lparr>status := ''cancelled'', updated_at := now, cancelled_at := Some now\<rparr>" "orders s" oid]
      by (auto simp: stock_invariant_def cancel_order_def Some redis_incrby_def stock_value_def Let_def)
  next
    case False
    then show ?thesis
      using assms by (auto simp: cancel_order_def Some)
  qed
qed

lemma stock_invariant_run_ops:
  "stock_invariant S pid s \<Longrightarrow> \<forall>x \<in> set ops. non_negative_request x \<Longrightarrow>
     stock_invariant S pid (run_ops s ops)"
proof (induction ops arbitrary: s)
  case Nil
  then show ?case by simp
next
  case (Cons x ops)
  have "stock_invariant S pid (step s x)"
    using Cons.prems
    by (cases x) (simp_all add: stock_invariant_flash_buy stock_invariant_cancel_order)
  then show ?case
    using Cons by simp
qed

lemma non_negative_purchases_keep_stock_bounds:
  assumes "orders s = []" and "0 \<le> stock_value s pid"
      and "\<forall>x \<in> set ops. non_negative_request x"
  shows "sold_quantity (orders (run_ops s ops)) pid \<le> stock_value s pid \<and>
         0 \<le> stock_value (run_ops s ops) pid \<and>
         stock_value (run_ops s ops) pid \<le> stock_value s pid"
proof -
  have "stock_invariant (stock_value s pid) pid s"
    using assms(1,2) by (simp add: stock_invariant_def)
  from stock_invariant_run_ops [OF this assms(3)]
  show ?thesis
    using sold_quantity_nonneg [of "orders (run_ops s ops)" pid]
    by (auto simp: stock_invariant_def)
qed

subsection \<open>Status changes made by the request handlers\<close>

text \<open>
  \<^verbatim>\<open>cancel_order\<close> changes at most one order, from pending to cancelled, and
  \<^verbatim>\<open>flash_buy\<close> only appends a pending order: the two request handlers leave every
  order that is confirmed or cancelled as it is.
\<close>

lemma list_all2_update_one:
  "(\<And>a. R a a) \<Longrightarrow> (\<And>x. find_one xs oid = Some x \<Longrightarrow> R x (f x)) \<Longrightarrow>
     list_all2 R xs (update_one xs oid f)"
proof (induction xs)
  case Nil
  then show ?case by simp
next
  case (Cons a xs)
  show ?case
  proof (cases "order_id a = oid")
    case True
    then show ?thesis
      using Cons.prems by (simp add: list_all2_refl)
  next
    case False
    then show ?thesis
      using Cons by simp
  qed
qed

lemma cancel_order_only_from_pending:
  "list_all2 (\<lambda>a b. b = a \<or> status a = ''pending'' \<and> status b = ''cancelled'')
     (orders s) (orders (fst (cancel_order s oid u now)))"
proof (cases "find_one (orders s) oid")
  case None
  then show ?thesis
    by (simp add: cancel_order_def list_all2_refl)
next
  case (Some x)
  show ?thesis
  proof (cases "user_id x = user_ident u \<and> status x = ''pending'' \<and> now - created_at x \<le> 300000000")
    case True
    have "list_all2 (\<lambda>a b. b = a \<or> status a = ''pending'' \<and> status b = ''cancelled'')
            (orders s) (update_one (orders s) oid
               (\<lambda>y. y\<lparr>status := ''cancelled'', updated_at := now, cancelled_at := Some now\<rparr>))"
      using True Some by (intro list_all2_update_one) simp_all
    then show ?thesis
      using True by (simp add: cancel_order_def Some redis_incrby_def Let_def)
  next
    case False
    then show ?thesis
      by (auto simp: cancel_order_def Some list_all2_refl)
  qed
qed

lemma flash_buy_keeps_orders:
  "orders (fst (flash_buy s request u new_id now)) = orders s \<or>
   (\<exists>x. status x = ''pending'' \<and> orders (fst (flash_buy s request u new_id now)) = orders s @ [x])"
  by (auto simp: flash_buy_unfold check_rate_limit_frame Let_def split: sum.splits option.splits)

section \<open>Cancellation\<close>

text \<open>
  Claim C4. \<^verbatim>\<open>cancel_order\<close> checks in this order: it fails with NotFound when no order
  has the id, with Forbidden when the requester does not own the order, with
  InvalidState when the owner's order is not pending, and with WindowExpired when the
  owner's pending order is older than five minutes. Whenever it fails, it is with one
  of these four errors and the whole state, the stock counters and the order records
  in particular, is as before.
\<close>

theorem cancel_order_failures:
  "(find_one (orders s) oid = None \<longrightarrow> cancel_order s oid u now = (s, Inl NotFound)) \<and>
   (\<forall>x. find_one (orders s) oid = Some x \<longrightarrow>
      (user_id x \<noteq> user_ident u \<longrightarrow> cancel_order s oid u now = (s, Inl Forbidden)) \<and>
      (user_id x = user_ident u \<and> status x \<noteq> ''pending'' \<longrightarrow>
         cancel_order s oid u now = (s, Inl InvalidState)) \<and>
      (user_id x = user_ident u \<and> status x = ''pending'' \<and> now - created_at x > 300000000 \<longrightarrow>
         cancel_order s oid u now = (s, Inl WindowExpired))) \<and>
   (\<forall>e. snd (cancel_order s oid u now) = Inl e \<longrightarrow>
      e \<in> {NotFound, Forbidden, InvalidState, WindowExpired} \<and>
      fst (cancel_order s oid u now) = s)"
  by (auto simp: cancel_order_def Let_def split: option.splits if_splits)

theorem cancel_order_failures_witness:
  "cancel_order (shop_with 5 [pending_order]) ''o7'' alice 1000000 =
     (shop_with 5 [pending_order], Inl NotFound) \<and>
   cancel_order (shop_with 5 [pending_order]) ''o1'' bob 1000000 =
     (shop_with 5 [pending_order], Inl Forbidden) \<and>
   cancel_order (shop_with 5 [pending_order\<lparr>status := ''confirmed''\<rparr>]) ''o1'' alice 1000000 =
     (shop_with 5 [pending_order\<lparr>status := ''confirmed''\<rparr>], Inl InvalidState) \<and>
   cancel_order (shop_with 5 [pending_order]) ''o1'' alice 300000001 =
     (shop_with 5 [pending_order], Inl WindowExpired) \<and>
   fst (cancel_order (shop_with 5 [pending_order]) ''o1'' alice 300000001) =
     shop_with 5 [pending_order]"
proof -
  have f: "find_one (orders (shop_with 5 [pending_order])) ''o7'' = None"
      "find_one (orders (shop_with 5 [pending_order])) ''o1'' = Some pending_order"
      "find_one (orders (shop_with 5 [pending_order\<lparr>status := ''confirmed''\<rparr>])) ''o1'' =
         Some (pending_order\<lparr>status := ''confirmed''\<rparr>)"
    by (simp_all add: shop_with_def pending_order_def)
  have g: "user_id pending_order = ''u1''" "user_ident bob = ''u2''" "user_ident alice = ''u1''"
      "status pending_order = ''pending''" "created_at pending_order = 0"
    by (simp_all add: pending_order_def alice_def bob_def)
  show ?thesis
    using cancel_order_failures [of "shop_with 5 [pending_order]" "''o7''" alice 1000000]
      cancel_order_failures [of "shop_with 5 [pending_order]" "''o1''" bob 1000000]
      cancel_order_failures [of "shop_with 5 [pending_order\<lparr>status := ''confirmed''\<rparr>]" "''o1''" alice 1000000]
      cancel_order_failures [of "shop_with 5 [pending_order]" "''o1''" alice 300000001]
    by (simp add: f g)
qed



section \<open>Admission by the rate limiter\<close>




section \<open>Confirmation\<close>

text \<open>
  Claim C9, as the code has it. Running the worker twice on one message leaves the
  state that a single run at the instant of the second run leaves, and returns the
  same value, without an error. Against a single run at the instant of the first run
  only \<^verbatim>\<open>updated_at\<close> differs: the orders are equal once that field is masked. The
  order, if the collection has it, ends with status confirmed. The worker of
  \<^verbatim>\<open>server_enhanced.py\<close> writes no time, and its second run changes nothing at all.
\<close>

theorem process_order_task_twice:
  "process_order_task (fst (process_order_task s order_data t1)) order_data t2 =
     process_order_task s order_data t2 \<and>
   map (\<lambda>x. x\<lparr>updated_at := 0\<rparr>)
       (orders (fst (process_order_task (fst (process_order_task s order_data t1)) order_data t2))) =
     map (\<lambda>x. x\<lparr>updated_at := 0\<rparr>) (orders (fst (process_order_task s order_data t1))) \<and>
   (\<forall>x. find_one (orders s) (order_id order_data) = Some x \<longrightarrow>
      find_one (orders (fst (process_order_task (fst (process_order_task s order_data t1))
                               order_data t2))) (order_id order_data) =
        Some (x\<lparr>status := ''confirmed'', updated_at := t2\<rparr>)) \<and>
   process_order_task_enhanced (fst (process_order_task_enhanced s order_data)) order_data =
     process_order_task_enhanced s order_data \<and>
   (\<forall>x. find_one (orders s) (order_id order_data) = Some x \<longrightarrow>
      find_one (orders (fst (process_order_task_enhanced s order_data))) (order_id order_data) =
        Some (x\<lparr>status := ''confirmed'', can_cancel := Some False\<rparr>))"
proof -
  have a: "process_order_task (fst (process_order_task s order_data t1)) order_data t2 =
     process_order_task s order_data t2"
    by (simp add: process_order_task_def update_one_twice)
  have b: "map (\<lambda>x. x\<lparr>updated_at := 0\<rparr>)
       (orders (fst (process_order_task s order_data t2))) =
     map (\<lambda>x. x\<lparr>updated_at := 0\<rparr>) (orders (fst (process_order_task s order_data t1)))"
  proof -
    have "map (\<lambda>x. x\<lparr>updated_at := 0\<rparr>)
            (update_one (orders s) (order_id order_data)
               (\<lambda>x. x\<lparr>status := ''confirmed'', updated_at := t2\<rparr>)) =
          map (\<lambda>x. x\<lparr>updated_at := 0\<rparr>)
            (update_one (orders s) (order_id order_data)
               (\<lambda>x. x\<lparr>status := ''confirmed'', updated_at := t1\<rparr>))"
      by (rule map_update_one) simp
    then show ?thesis
      by (simp add: process_order_task_def)
  qed
  have c: "find_one (orders (fst (process_order_task s order_data t2))) (order_id order_data) =
        Some (x\<lparr>status := ''confirmed'', updated_at := t2\<rparr>)"
    if "find_one (orders s) (order_id order_data) = Some x" for x
    using that by (simp add: process_order_task_def find_one_update_one)
  have d: "process_order_task_enhanced (fst (process_order_task_enhanced s order_data)) order_data =
     process_order_task_enhanced s order_data"
    by (simp add: process_order_task_enhanced_def update_one_twice)
  have e: "find_one (orders (fst (process_order_task_enhanced s order_data))) (order_id order_data) =
        Some (x\<lparr>status := ''confirmed'', can_cancel := Some False\<rparr>)"
    if "find_one (orders s) (order_id order_data) = Some x" for x
    using that by (simp add: process_order_task_enhanced_def find_one_update_one)
  show ?thesis
    using b c d e unfolding a by blast
qed

theorem process_order_task_twice_witness:
  "find_one (orders (fst (process_order_task
        (fst (process_order_task (shop_with 5 [pending_order]) pending_order 1000000))
        pending_order 2000000))) ''o1'' =
     Some (pending_order\<lparr>status := ''confirmed'', updated_at := 2000000\<rparr>) \<and>
   find_one (orders (fst (process_order_task_enhanced (shop_with 5 [pending_order]) pending_order)))
       ''o1'' =
     Some (pending_order\<lparr>status := ''confirmed'', can_cancel := Some False\<rparr>)"
proof -
  have f: "find_one (orders (shop_with 5 [pending_order])) (order_id pending_order) =
             Some pending_order"
    by (simp add: shop_with_def)
  have i: "order_id pending_order = ''o1''"
    by (simp add: pending_order_def)
  show ?thesis
    using process_order_task_twice [of "shop_with 5 [pending_order]" pending_order 1000000 2000000] f
    unfolding i by blast
qed

text \<open>
  The second run of the worker of \<^verbatim>\<open>server.py\<close> is not a no-op: it moves \<^verbatim>\<open>updated_at\<close>
  from the instant of the first run to its own.
\<close>

theorem process_order_task_twice_counterexample:
  "orders (fst (process_order_task
        (fst (process_order_task (shop_with 5 [pending_order]) pending_order 1000000))
        pending_order 2000000)) =
     [pending_order\<lparr>status := ''confirmed'', updated_at := 2000000\<rparr>] \<and>
   orders (fst (process_order_task (shop_with 5 [pending_order]) pending_order 1000000)) =
     [pending_order\<lparr>status := ''confirmed'', updated_at := 1000000\<rparr>] \<and>
   fst (process_order_task
        (fst (process_order_task (shop_with 5 [pending_order]) pending_order 1000000))
        pending_order 2000000) \<noteq>
     fst (process_order_task (shop_with 5 [pending_order]) pending_order 1000000)"
proof -
  have a: "orders (fst (process_order_task
        (fst (process_order_task (shop_with 5 [pending_order]) pending_order 1000000))
        pending_order 2000000)) =
     [pending_order\<lparr>status := ''confirmed'', updated_at := 2000000\<rparr>]"
    by (simp add: process_order_task_def shop_with_def)
  have b: "orders (fst (process_order_task (shop_with 5 [pending_order]) pending_order 1000000)) =
     [pending_order\<lparr>status := ''confirmed'', updated_at := 1000000\<rparr>]"
    by (simp add: process_order_task_def shop_with_def)
  have "pending_order\<lparr>status := ''confirmed'', updated_at := 2000000\<rparr> \<noteq>
        pending_order\<lparr>status := ''confirmed'', updated_at := 1000000\<rparr>"
    by (simp add: pending_order_def)
  then have c: "orders (fst (process_order_task
        (fst (process_order_task (shop_with 5 [pending_order]) pending_order 1000000))
        pending_order 2000000)) \<noteq>
      orders (fst (process_order_task (shop_with 5 [pending_order]) pending_order 1000000))"
    unfolding a b by simp
  have d: "fst (process_order_task
        (fst (process_order_task (shop_with 5 [pending_order]) pending_order 1000000))
        pending_order 2000000) \<noteq>
     fst (process_order_task (shop_with 5 [pending_order]) pending_order 1000000)"
    using c by (rule contrapos_nn) (erule arg_cong)
  show ?thesis
    using a b d by (intro conjI)
qed

section \<open>Inputs on which the code departs from the specification\<close>

text \<open>
  Claim C2. A reservation of \<open>2^63\<close> units of a product with 5 in stock does not
  fail as out of stock: Redis refuses the amount, and the reservation and the handler
  fail with \<^verbatim>\<open>ResponseError\<close>. A reservation of \<open>- 2^63 - 1\<close> units, an amount below
  the counter's value, does not succeed either.
\<close>

theorem reserve_stock_refused_by_redis:
  "stock_value (shop 5) ''prod_1'' < 9223372036854775808 \<and>
   snd (reserve_stock (shop 5) ''prod_1'' 9223372036854775808) = Inl ResponseError \<and>
   snd (flash_buy (shop 5) (buy ''prod_1'' 9223372036854775808) alice ''o1'' 0) =
     Inl ResponseError \<and>
   - 9223372036854775809 \<le> stock_value (shop 5) ''prod_1'' \<and>
   snd (reserve_stock (shop 5) ''prod_1'' (- 9223372036854775809)) = Inl ResponseError"
  by (simp add: reserve_stock_def redis_decrby_def decrby_accepted_def int64_def flash_buy_def
        check_rate_limit_def redis_get_def redis_incr_def redis_expire_def stock_value_def
        shop_def alice_def buy_def Let_def)

text \<open>
  Claim C6. \<^verbatim>\<open>check_rate_limit\<close> runs \<^verbatim>\<open>EXPIRE\<close> after every \<^verbatim>\<open>INCR\<close>, not only after the
  first one of a window. With a window of 60 s and a limit of 10, the first request
  sets the expiry to 60 s and a second request at 30 s moves it to 90 s; a request at
  61 s then falls into the same window, as its third request, and moves the expiry to
  121 s. A user who sends one request every 30 s is denied at the eleventh, at 300 s.
\<close>

theorem check_rate_limit_resets_expiry:
  "rate_limit (fst (rate_limit_run (shop 5) ''u1'' ''flash_buy'' 10 60 [0]))
     (rate_key ''u1'' ''flash_buy'') = Some \<lparr>rw_count = 1, rw_expire_at = Some 60000\<rparr> \<and>
   rate_limit (fst (rate_limit_run (shop 5) ''u1'' ''flash_buy'' 10 60 [0, 30000000]))
     (rate_key ''u1'' ''flash_buy'') = Some \<lparr>rw_count = 2, rw_expire_at = Some 90000\<rparr> \<and>
   snd (rate_limit_run (shop 5) ''u1'' ''flash_buy'' 10 60 [0, 30000000, 61000000]) =
     [Inr (), Inr (), Inr ()] \<and>
   rate_limit (fst (rate_limit_run (shop 5) ''u1'' ''flash_buy'' 10 60 [0, 30000000, 61000000]))
     (rate_key ''u1'' ''flash_buy'') = Some \<lparr>rw_count = 3, rw_expire_at = Some 121000\<rparr> \<and>
   snd (rate_limit_run (shop 5) ''u1'' ''flash_buy'' 10 60
          [0, 30000000, 60000000, 90000000, 120000000, 150000000, 180000000, 210000000,
           240000000, 270000000, 300000000]) =
     [Inr (), Inr (), Inr (), Inr (), Inr (), Inr (), Inr (), Inr (), Inr (), Inr (),
      Inl RateLimited]"
  by (simp add: check_rate_limit_def redis_get_def redis_incr_def redis_expire_def shop_def
        rate_key_def Let_def)

text \<open>
  Claim C10. A purchase of 3 units out of 5 by an admitted user fails: \<^verbatim>\<open>delay\<close> raises
  \<^verbatim>\<open>EncodeError\<close>. By then the order is in the collection, pending, and the counter is
  down to 2; nothing is queued.
\<close>

theorem flash_buy_fails_after_insert:
  "snd (flash_buy (shop 5) (buy ''prod_1'' 3) alice ''o1'' 0) = Inl EncodeError \<and>
   orders (fst (flash_buy (shop 5) (buy ''prod_1'' 3) alice ''o1'' 0)) = [pending_order] \<and>
   stock_value (fst (flash_buy (shop 5) (buy ''prod_1'' 3) alice ''o1'' 0)) ''prod_1'' = 2 \<and>
   queue (fst (flash_buy (shop 5) (buy ''prod_1'' 3) alice ''o1'' 0)) = []"
  by (simp add: flash_buy_def reserve_stock_def insert_one_def process_order_task_delay_def
        check_rate_limit_def redis_get_def redis_incr_def redis_expire_def redis_decrby_def
        redis_incrby_def decrby_accepted_def int64_def stock_value_def rate_key_def
        shop_def alice_def buy_def pending_order_def Let_def)

text \<open>
  Claim C3. \<^verbatim>\<open>flash_buy\<close> of \<^verbatim>\<open>server.py\<close> takes its request through a model without
  bounds on the quantity, unlike \<^verbatim>\<open>FlashBuyRequest\<close> of \<^verbatim>\<open>server_enhanced.py\<close>. With 50
  units in stock, a request for 0 units passes the validation and the reservation and
  inserts an order of quantity 0; a request for -5 units inserts an order of quantity
  -5 and raises the counter to 55; a request for 11 units, above the maximum of 10,
  inserts its order too. None of them is rejected for its quantity: each fails at the
  end, as every purchase does, when the message is queued.
\<close>

theorem flash_buy_accepts_any_quantity:
  "snd (flash_buy (shop 50) (buy ''prod_1'' 0) alice ''o1'' 0) = Inl EncodeError \<and>
   map quantity (orders (fst (flash_buy (shop 50) (buy ''prod_1'' 0) alice ''o1'' 0))) = [0] \<and>
   snd (flash_buy (shop 50) (buy ''prod_1'' (- 5)) alice ''o1'' 0) = Inl EncodeError \<and>
   map quantity (orders (fst (flash_buy (shop 50) (buy ''prod_1'' (- 5)) alice ''o1'' 0))) = [- 5] \<and>
   stock_value (fst (flash_buy (shop 50) (buy ''prod_1'' (- 5)) alice ''o1'' 0)) ''prod_1'' = 55 \<and>
   map quantity (orders (fst (flash_buy (shop 50) (buy ''prod_1'' 11) alice ''o1'' 0))) = [11] \<and>
   \<not> FlashBuyRequest_enhanced_valid (buy ''prod_1'' 0) \<and>
   \<not> FlashBuyRequest_enhanced_valid (buy ''prod_1'' (- 5)) \<and>
   \<not> FlashBuyRequest_enhanced_valid (buy ''prod_1'' 11)"
  by (simp add: flash_buy_def reserve_stock_def insert_one_def process_order_task_delay_def
        check_rate_limit_def redis_get_def redis_incr_def redis_expire_def redis_decrby_def
        redis_incrby_def decrby_accepted_def int64_def stock_value_def rate_key_def
        shop_def alice_def buy_def Let_def FlashBuyRequest_enhanced_valid_def)

text \<open>
  Claim C8. The worker sets the status to confirmed whatever the status is. An order
  that its owner cancels before the worker is run on it goes from cancelled to
  confirmed, with both workers, while the counter keeps the units the cancellation gave
  back; a further purchase of these units leaves orders for 6 units in status pending
  or confirmed against an initial stock of 3.
\<close>

theorem worker_confirms_cancelled_order:
  "orders (run_ops (shop 3) [Purchase (buy ''prod_1'' 3) alice ''o1'' 0]) = [pending_order] \<and>
   map status (orders (run_ops (shop 3)
      [Purchase (buy ''prod_1'' 3) alice ''o1'' 0, Cancel ''o1'' alice 1000000])) =
     [''cancelled''] \<and>
   map status (orders (run_ops (shop 3)
      [Purchase (buy ''prod_1'' 3) alice ''o1'' 0, Cancel ''o1'' alice 1000000,
       Confirm pending_order 2000000])) = [''confirmed''] \<and>
   map status (orders (fst (process_order_task_enhanced (run_ops (shop 3)
      [Purchase (buy ''prod_1'' 3) alice ''o1'' 0, Cancel ''o1'' alice 1000000])
      pending_order))) = [''confirmed''] \<and>
   stock_value (run_ops (shop 3)
      [Purchase (buy ''prod_1'' 3) alice ''o1'' 0, Cancel ''o1'' alice 1000000,
       Confirm pending_order 2000000]) ''prod_1'' = 3 \<and>
   sold_quantity (orders (run_ops (shop 3)
      [Purchase (buy ''prod_1'' 3) alice ''o1'' 0, Cancel ''o1'' alice 1000000,
       Confirm pending_order 2000000, Purchase (buy ''prod_1'' 3) bob ''o2'' 3000000]))
      ''prod_1'' = 6"
  by (simp add: flash_buy_def reserve_stock_def insert_one_def process_order_task_delay_def
        cancel_order_def process_order_task_def process_order_task_enhanced_def
        check_rate_limit_def redis_get_def redis_incr_def redis_expire_def redis_decrby_def
        redis_incrby_def decrby_accepted_def int64_def stock_value_def rate_key_def
        shop_def alice_def bob_def buy_def pending_order_def Let_def)

text \<open>
  Claim C1. With an initial stock of 2, a purchase of -3 units raises the counter to 5,
  above the initial stock. A purchase of 5 units then empties the counter, and the
  cancellation of the first order lowers it to -3, while the pending order holds 5
  units against an initial stock of 2.
\<close>

theorem negative_quantity_breaks_stock_bounds:
  "stock_value (run_ops (shop 2) [Purchase (buy ''prod_1'' (- 3)) alice ''o1'' 0]) ''prod_1'' = 5 \<and>
   stock_value (run_ops (shop 2)
      [Purchase (buy ''prod_1'' (- 3)) alice ''o1'' 0,
       Purchase (buy ''prod_1'' 5) alice ''o2'' 500000,
       Cancel ''o1'' alice 1000000]) ''prod_1'' = - 3 \<and>
   map status (orders (run_ops (shop 2)
      [Purchase (buy ''prod_1'' (- 3)) alice ''o1'' 0,
       Purchase (buy ''prod_1'' 5) alice ''o2'' 500000,
       Cancel ''o1'' alice 1000000])) = [''cancelled'', ''pending''] \<and>
   sold_quantity (orders (run_ops (shop 2)
      [Purchase (buy ''prod_1'' (- 3)) alice ''o1'' 0,
       Purchase (buy ''prod_1'' 5) alice ''o2'' 500000,
       Cancel ''o1'' alice 1000000])) ''prod_1'' = 5"
  by (simp add: flash_buy_def reserve_stock_def insert_one_def process_order_task_delay_def
        cancel_order_def check_rate_limit_def redis_get_def redis_incr_def redis_expire_def
        redis_decrby_def redis_incrby_def decrby_accepted_def int64_def stock_value_def
        rate_key_def shop_def alice_def buy_def Let_def)

end
